theory Spec2Isabelle
  imports Main
begin

section \<open>Scene-graph nodes as the viewer sees them\<close>

text \<open>
  The viewer (\<^verbatim>\<open>src/viewer/viewer.ts\<close>) distinguishes nodes only by
  \<^verbatim>\<open>instanceof THREE.Mesh\<close>, reads their numeric \<^verbatim>\<open>id\<close>, and reads and writes
  \<^verbatim>\<open>userData.propertyValue\<close>. A node of the loaded tree therefore carries its id, the
  outcome of the instance check, the property value slot (\<open>None\<close> is \<^verbatim>\<open>undefined\<close>) and
  its children. The label sprites that \<^verbatim>\<open>addTextLabel\<close> creates are a constructor of
  their own: they are not meshes, have no children, and nothing in the viewer reads
  the id the library gives them.
\<close>

record propertyValue =
  statusCode :: nat
  statusText :: "string option"

record sprite_label =
  labelText :: string
  backgroundColor :: string
  textColor :: string

datatype object3d =
    Object3D (oid: nat) (isMesh: bool) (userData_propertyValue: "propertyValue option")
             (children: "object3d list")
  | LabelSprite sprite_label

text \<open>All nodes of a tree, the root first (the order of \<^verbatim>\<open>Object3D.traverse\<close>).\<close>

fun nodes :: "object3d \<Rightarrow> object3d list" where
  "nodes (Object3D i m pv cs) = Object3D i m pv cs # concat (map nodes cs)"
| "nodes (LabelSprite l) = [LabelSprite l]"

fun meshCount :: "object3d \<Rightarrow> nat" where
  "meshCount (Object3D i m pv cs) = (if m then 1 else 0) + sum_list (map meshCount cs)"
| "meshCount (LabelSprite l) = 0"

fun spriteCount :: "object3d \<Rightarrow> nat" where
  "spriteCount (Object3D i m pv cs) = sum_list (map spriteCount cs)"
| "spriteCount (LabelSprite l) = 1"

section \<open>Synthesised status values\<close>

text \<open>The object literal \<^verbatim>\<open>progressStatuses\<close>; a missing key reads as \<^verbatim>\<open>undefined\<close>.\<close>

definition progressStatuses :: "nat \<rightharpoonup> string" where
  "progressStatuses =
     [1 \<mapsto> ''Not Started'', 2 \<mapsto> ''In Progress'',
      3 \<mapsto> ''Partially Installed'', 4 \<mapsto> ''Installed'']"

text \<open>The body of the callback in \<^verbatim>\<open>assignPropertyValues\<close>, for a mesh with id \<open>i\<close>.\<close>

definition statusIndex :: "nat \<Rightarrow> nat" where
  "statusIndex i = (i mod 4) + 1"

definition meshPropertyValue :: "nat \<Rightarrow> propertyValue" where
  "meshPropertyValue i =
     \<lparr>statusCode = statusIndex i, statusText = progressStatuses (statusIndex i)\<rparr>"

text \<open>The text \<^verbatim>\<open>progressStatuses[statusIndex]\<close> of a mesh with id \<open>i\<close>, empty when the key is missing.\<close>

definition statusName :: "nat \<Rightarrow> string" where
  "statusName i = (case progressStatuses (statusIndex i) of Some txt \<Rightarrow> txt | None \<Rightarrow> [])"

fun assignPropertyValues :: "object3d \<Rightarrow> object3d" where
  "assignPropertyValues (Object3D i m pv cs) =
     Object3D i m (if m then Some (meshPropertyValue i) else pv)
       (map assignPropertyValues cs)"
| "assignPropertyValues (LabelSprite l) = LabelSprite l"

section \<open>Label sprites\<close>

text \<open>
  The \<^verbatim>\<open>switch\<close> of \<^verbatim>\<open>addTextLabel\<close> that picks the background colour. The initial
  value \<^verbatim>\<open>"black"\<close> is overwritten on every branch.
\<close>

definition labelBackground :: "nat \<Rightarrow> string" where
  "labelBackground code =
     (if code = 1 then ''rgba(255, 0, 0, 0.8)''
      else if code = 2 then ''rgba(255, 165, 0, 0.8)''
      else if code = 3 then ''rgba(0, 255, 0, 0.8)''
      else if code = 4 then ''rgba(0, 0, 255, 0.8)''
      else ''rgba(0, 0, 0, 0.8)'')"

definition makeLabel :: "nat \<Rightarrow> string \<Rightarrow> sprite_label" where
  "makeLabel code txt =
     \<lparr>labelText = txt, backgroundColor = labelBackground code, textColor = ''white''\<rparr>"

text \<open>
  \<^verbatim>\<open>addTextLabel(object)\<close>. The destructuring of
  \<^verbatim>\<open>object.userData.propertyValue || {}\<close> leaves both names \<^verbatim>\<open>undefined\<close> when the slot
  is empty; the test \<^verbatim>\<open>statusCode && statusText\<close> needs a non-zero number and a
  non-empty string. Whether \<^verbatim>\<open>canvas.getContext("2d")\<close> yields a context is decided by
  the browser: \<open>getContext i\<close> says so for the canvas made for the node with id \<open>i\<close>, and
  the function returns early when it does not. \<^verbatim>\<open>object.add(sprite)\<close> appends the sprite
  to the children.
\<close>

fun addTextLabel :: "(nat \<Rightarrow> bool) \<Rightarrow> object3d \<Rightarrow> object3d" where
  "addTextLabel getContext (Object3D i m pv cs) =
     (case pv of
        None \<Rightarrow> Object3D i m pv cs
      | Some p \<Rightarrow>
          (case statusText p of
             None \<Rightarrow> Object3D i m pv cs
           | Some txt \<Rightarrow>
               if statusCode p \<noteq> 0 \<and> txt \<noteq> [] then
                 if \<not> getContext i then Object3D i m pv cs
                 else Object3D i m pv (cs @ [LabelSprite (makeLabel (statusCode p) txt)])
               else Object3D i m pv cs))"
| "addTextLabel getContext (LabelSprite l) = LabelSprite l"

text \<open>
  Two browsers: one that never hands out a 2D context, one that always does. And the
  number of meshes of a tree for whose canvas a context is handed out.
\<close>

definition contextUnavailable :: "nat \<Rightarrow> bool" where
  "contextUnavailable i = False"

definition contextAvailable :: "nat \<Rightarrow> bool" where
  "contextAvailable i = True"

fun contextCount :: "(nat \<Rightarrow> bool) \<Rightarrow> object3d \<Rightarrow> nat" where
  "contextCount getContext (Object3D i m pv cs) =
     (if m \<and> getContext i then 1 else 0) + sum_list (map (contextCount getContext) cs)"
| "contextCount getContext (LabelSprite l) = 0"

text \<open>
  The loaded tree written out node by node, to compare the code against. A mesh gets
  its synthesised status value; behind its children it gets one sprite with its own
  status text and status colour when its canvas is handed a 2D context, and no sprite
  when it is not. A node that is not a mesh keeps its slot and gets no sprite.
\<close>

fun labelledTree :: "(nat \<Rightarrow> bool) \<Rightarrow> object3d \<Rightarrow> object3d" where
  "labelledTree getContext (Object3D i m pv cs) =
     Object3D i m (if m then Some (meshPropertyValue i) else pv)
       (map (labelledTree getContext) cs @
        (if m \<and> getContext i
         then [LabelSprite (makeLabel (statusIndex i) (statusName i))] else []))"
| "labelledTree getContext (LabelSprite l) = LabelSprite l"

text \<open>
  \<^verbatim>\<open>addLabelsToModel\<close>: \<^verbatim>\<open>traverse\<close> calls the callback on the node and then walks the
  node's children as they are after the callback, so a sprite that was just added is
  visited too (and skipped, not being a mesh).
\<close>

fun weight :: "object3d \<Rightarrow> nat" where
  "weight (Object3D i m pv cs) = Suc (sum_list (map weight cs))"
| "weight (LabelSprite l) = 0"

function (sequential) addLabelsToModel :: "(nat \<Rightarrow> bool) \<Rightarrow> object3d \<Rightarrow> object3d" where
  "addLabelsToModel getContext (Object3D i m pv cs) =
     (case (if m then addTextLabel getContext (Object3D i m pv cs) else Object3D i m pv cs) of
        Object3D i' m' pv' cs' \<Rightarrow> Object3D i' m' pv' (map (addLabelsToModel getContext) cs')
      | LabelSprite l \<Rightarrow> LabelSprite l)"
| "addLabelsToModel getContext (LabelSprite l) = LabelSprite l"
  by pat_completeness auto

termination addLabelsToModel
proof (relation "measure (\<lambda>(g, t). weight t)")
  show "wf (measure (\<lambda>(g, t). weight t))" by simp
next
  fix getContext :: "nat \<Rightarrow> bool" and i m pv cs i' m' pv' cs' x
  assume eq: "(if m then addTextLabel getContext (Object3D i m pv cs) else Object3D i m pv cs)
                = Object3D i' m' pv' cs'"
    and mem: "x \<in> set cs'"
  have below: "y \<in> set ys \<Longrightarrow> weight y \<le> sum_list (map weight ys)" for y ys
    by (induction ys) auto
  have "x \<in> set cs \<or> weight x = 0"
    using eq mem by (auto split: if_splits option.splits)
  then have "weight x \<le> sum_list (map weight cs)"
    using below by fastforce
  then show "((getContext, x), (getContext, Object3D i m pv cs)) \<in> measure (\<lambda>(g, t). weight t)"
    by simp
qed

section \<open>The viewer\<close>

text \<open>
  \<^verbatim>\<open>ViewerStatus\<close>, and the values the viewer's fields hold. A material is known to the
  viewer by its identity only: \<open>LoaderMaterial n\<close> is the \<open>n\<close>-th material object that came
  with the loaded scene, \<open>HighlightMaterial n\<close> the \<open>n\<close>-th object made by
  \<^verbatim>\<open>new THREE.MeshBasicMaterial({color: 0xff0000, wireframe: true})\<close> in \<^verbatim>\<open>highlightObject\<close>.
  \<open>Ratio w h\<close> is the number that \<^verbatim>\<open>w / h\<close> evaluates to; the rounding of the division is
  not looked into.
\<close>

datatype ViewerStatus = Loading | Error | Idle

datatype material = LoaderMaterial nat | HighlightMaterial nat

datatype ratio = Ratio nat nat

datatype listener = ResizeHandler | MouseClickHandler

datatype scene_child = DirectionalLight | AmbientLight | Model object3d

datatype js_error = JsError string

text \<open>
  The state of one viewer. \<open>status\<close> is the \<^verbatim>\<open>BehaviorSubject\<close>: the values it has held,
  oldest first, so a subscriber from the start sees exactly this list and the current
  value is the last one. \<open>projection_aspect\<close> is the aspect the camera's projection matrix
  was last computed from. \<open>rendered\<close> logs every \<^verbatim>\<open>_renderer.render\<close> call with the
  projection and the surface size it drew with. \<open>animationFrames\<close> counts the callbacks
  handed to \<^verbatim>\<open>requestAnimationFrame\<close> that have not run yet. The two listener sets are
  what this viewer has registered on \<^verbatim>\<open>window\<close> and on the renderer's canvas.
\<close>

record viewer =
  status :: "ViewerStatus list"
  model :: "object3d option"
  scene_children :: "scene_child list"
  camera_aspect :: ratio
  projection_aspect :: ratio
  renderer_size :: "nat \<times> nat"
  renderNeeded :: bool
  rendered :: "(ratio \<times> nat \<times> nat) list"
  animationFrames :: nat
  selectedObject :: "nat option"
  window_listeners :: "(string \<times> listener) set"
  canvas_listeners :: "(string \<times> listener) set"
  canvas_in_container :: bool
  renderer_disposed :: bool
  cameraControl_disposed :: bool

text \<open>
  \<^verbatim>\<open>_render\<close>. \<open>hasControlsUpdated\<close> is what \<^verbatim>\<open>_cameraControl.update(clockDelta)\<close>
  returns on this call.
\<close>

definition render :: "bool \<Rightarrow> viewer \<Rightarrow> viewer" where
  "render hasControlsUpdated v =
     (let v1 = (if hasControlsUpdated \<or> renderNeeded v
                then v\<lparr>rendered := rendered v @ [(projection_aspect v, renderer_size v)],
                       renderNeeded := False\<rparr>
                else v)
      in v1\<lparr>animationFrames := Suc (animationFrames v1)\<rparr>)"

definition updateViewer :: "bool \<Rightarrow> viewer \<Rightarrow> viewer" where
  "updateViewer hasControlsUpdated v = render hasControlsUpdated (v\<lparr>renderNeeded := True\<rparr>)"

text \<open>\<^verbatim>\<open>resize\<close>, with \<^verbatim>\<open>window.innerWidth\<close> and \<^verbatim>\<open>window.innerHeight\<close> at the time it runs.\<close>

definition resize :: "nat \<Rightarrow> nat \<Rightarrow> bool \<Rightarrow> viewer \<Rightarrow> viewer" where
  "resize innerWidth innerHeight hasControlsUpdated v =
     updateViewer hasControlsUpdated
       (v\<lparr>camera_aspect := Ratio innerWidth innerHeight,
          projection_aspect := Ratio innerWidth innerHeight,
          renderer_size := (innerWidth, innerHeight),
          renderNeeded := True\<rparr>)"

text \<open>
  \<^verbatim>\<open>loadModel\<close> is an \<^verbatim>\<open>async\<close> function: it runs up to its first \<^verbatim>\<open>await\<close> inside the
  call, and the rest when the request settles.
\<close>

definition loadModel_start :: "viewer \<Rightarrow> viewer" where
  "loadModel_start v = v\<lparr>status := status v @ [Loading]\<rparr>"

text \<open>
  The rest of \<^verbatim>\<open>loadModel\<close>. \<^verbatim>\<open>findThreeJSJSON\<close> and \<^verbatim>\<open>parseJSON\<close> live in
  \<^verbatim>\<open>utils/parse-json\<close> and are parameters here, as is the outcome \<open>axios_get\<close> of the
  request; each may throw (\<open>Inl\<close>), and \<^verbatim>\<open>findThreeJSJSON\<close> may return nothing (\<open>None\<close>).
  The result is how the promise settles: \<open>Inl\<close> rejected, \<open>Inr None\<close> fulfilled with
  \<^verbatim>\<open>undefined\<close>, which is what falling out of the \<^verbatim>\<open>if (jsonObject)\<close> gives.
\<close>

definition loadModel_catch :: "viewer \<Rightarrow> (js_error + object3d option) \<times> viewer" where
  "loadModel_catch v = (Inl (JsError ''Failed to load model''), v\<lparr>status := status v @ [Error]\<rparr>)"

definition loadModel_resume ::
  "('e + 'd) \<Rightarrow> ('d \<Rightarrow> 'e + 'j option) \<Rightarrow> ('j \<Rightarrow> 'e + object3d) \<Rightarrow> (nat \<Rightarrow> bool) \<Rightarrow>
     viewer \<Rightarrow> (js_error + object3d option) \<times> viewer" where
  "loadModel_resume axios_get findThreeJSJSON parseJSON getContext v =
     (case axios_get of
        Inl e \<Rightarrow> loadModel_catch v
      | Inr data \<Rightarrow>
          (case findThreeJSJSON data of
             Inl e \<Rightarrow> loadModel_catch v
           | Inr None \<Rightarrow> (Inr None, v)
           | Inr (Some jsonObject) \<Rightarrow>
               (case parseJSON jsonObject of
                  Inl e \<Rightarrow> loadModel_catch v
                | Inr object3d \<Rightarrow>
                    (Inr (Some (addLabelsToModel getContext (assignPropertyValues object3d))),
                     v))))"

text \<open>
  The callback the constructor passes to \<^verbatim>\<open>then\<close>. The rotation of the root and the
  camera fit change no field of the state kept here.
\<close>

definition onModelLoaded :: "object3d option \<Rightarrow> viewer \<Rightarrow> viewer" where
  "onModelLoaded result v =
     (case result of
        None \<Rightarrow> v
      | Some object3d \<Rightarrow>
          v\<lparr>scene_children := scene_children v @ [Model object3d],
            model := Some object3d,
            status := status v @ [Idle]\<rparr>)"

text \<open>The settling of \<^verbatim>\<open>this.loadModel().then(...)\<close>: a rejection skips the callback.\<close>

definition loadSettled ::
  "('e + 'd) \<Rightarrow> ('d \<Rightarrow> 'e + 'j option) \<Rightarrow> ('j \<Rightarrow> 'e + object3d) \<Rightarrow> (nat \<Rightarrow> bool) \<Rightarrow>
     viewer \<Rightarrow> viewer" where
  "loadSettled axios_get findThreeJSJSON parseJSON getContext v =
     (case loadModel_resume axios_get findThreeJSJSON parseJSON getContext v of
        (Inl err, v') \<Rightarrow> v'
      | (Inr result, v') \<Rightarrow> onModelLoaded result v')"

text \<open>
  The field initialisers and the constructor, for a window of the given inner size.
  The constructor returns after the synchronous part of \<^verbatim>\<open>loadModel\<close> and the first
  \<^verbatim>\<open>updateViewer\<close>.
\<close>

definition constructor :: "nat \<Rightarrow> nat \<Rightarrow> bool \<Rightarrow> viewer" where
  "constructor innerWidth innerHeight hasControlsUpdated =
     updateViewer hasControlsUpdated
       (loadModel_start
          \<lparr>status = [Idle],
           model = None,
           scene_children = [DirectionalLight, AmbientLight],
           camera_aspect = Ratio innerWidth innerHeight,
           projection_aspect = Ratio innerWidth innerHeight,
           renderer_size = (innerWidth, innerHeight),
           renderNeeded = True,
           rendered = [],
           animationFrames = 0,
           selectedObject = None,
           window_listeners = {(''resize'', ResizeHandler)},
           canvas_listeners = {(''click'', MouseClickHandler)},
           canvas_in_container = True,
           renderer_disposed = False,
           cameraControl_disposed = False\<rparr>)"

text \<open>
  \<^verbatim>\<open>dispose\<close>: both \<^verbatim>\<open>removeEventListener\<close> calls, the canvas taken out of the page,
  renderer and camera controller disposed, \<^verbatim>\<open>scene.clear()\<close>, the flag reset.
\<close>

definition dispose :: "viewer \<Rightarrow> viewer" where
  "dispose v =
     v\<lparr>window_listeners := window_listeners v - {(''resize'', ResizeHandler)},
       canvas_listeners := canvas_listeners v - {(''click'', MouseClickHandler)},
       canvas_in_container := False,
       renderer_disposed := True,
       cameraControl_disposed := True,
       scene_children := [],
       renderNeeded := False\<rparr>"

section \<open>Selection and highlighting\<close>

text \<open>
  The objects the viewer can be handed live outside the viewer, and the viewer changes
  them in place. They are kept field by field, each field a map from the object's
  identity to its value: the outcome of \<^verbatim>\<open>instanceof THREE.Mesh\<close>, the \<^verbatim>\<open>material\<close>
  property and the slot \<^verbatim>\<open>userData.originalMaterial\<close> (\<open>None\<close> is \<^verbatim>\<open>undefined\<close>, which is
  also what \<^verbatim>\<open>delete\<close> leaves). \<open>materialsCreated\<close> numbers the highlight materials made
  so far, so that each \<^verbatim>\<open>new\<close> gives an object distinct from all earlier ones.
\<close>

record objects =
  isMeshOf :: "nat \<Rightarrow> bool"
  material :: "nat \<Rightarrow> material option"
  userData_originalMaterial :: "nat \<Rightarrow> material option"
  materialsCreated :: nat

definition resetObjectMaterial :: "nat \<Rightarrow> objects \<Rightarrow> objects" where
  "resetObjectMaterial object h =
     (if isMeshOf h object \<and> userData_originalMaterial h object \<noteq> None
      then h\<lparr>material := (material h)(object := userData_originalMaterial h object),
             userData_originalMaterial := (userData_originalMaterial h)(object := None)\<rparr>
      else h)"

text \<open>The guarded call \<^verbatim>\<open>if (this._selectedObject) this.resetObjectMaterial(...)\<close>.\<close>

definition resetSelected :: "viewer \<Rightarrow> objects \<Rightarrow> objects" where
  "resetSelected v h =
     (case selectedObject v of None \<Rightarrow> h | Some previous \<Rightarrow> resetObjectMaterial previous h)"

definition applyHighlight :: "nat \<Rightarrow> objects \<Rightarrow> objects" where
  "applyHighlight object h =
     (if isMeshOf h object
      then h\<lparr>userData_originalMaterial := (userData_originalMaterial h)(object := material h object),
             material := (material h)(object := Some (HighlightMaterial (materialsCreated h))),
             materialsCreated := Suc (materialsCreated h)\<rparr>
      else h)"

definition highlightObject :: "nat \<Rightarrow> viewer \<times> objects \<Rightarrow> viewer \<times> objects" where
  "highlightObject object s =
     (case s of (v, h) \<Rightarrow>
        (v\<lparr>selectedObject := Some object\<rparr>, applyHighlight object (resetSelected v h)))"

text \<open>
  \<^verbatim>\<open>onMouseClick\<close>. \<open>intersects\<close> is what the raycaster returns for the click, nearest
  hit first, each hit given by the object it is on.
\<close>

definition onMouseClick :: "nat list \<Rightarrow> viewer \<times> objects \<Rightarrow> viewer \<times> objects" where
  "onMouseClick intersects s =
     (case s of (v, h) \<Rightarrow>
        (case intersects of
           hit # farther \<Rightarrow>
             highlightObject hit (v\<lparr>selectedObject := Some hit\<rparr>, resetSelected v h)
         | [] \<Rightarrow>
             (case selectedObject v of
                Some previous \<Rightarrow> (v\<lparr>selectedObject := None\<rparr>, resetObjectMaterial previous h)
              | None \<Rightarrow> (v, h))))"

text \<open>An object holds a highlight material when its material is one that \<^verbatim>\<open>highlightObject\<close> made.\<close>

definition highlighted :: "objects \<Rightarrow> nat \<Rightarrow> bool" where
  "highlighted h object =
     (case material h object of Some (HighlightMaterial n) \<Rightarrow> True | _ \<Rightarrow> False)"

section \<open>What happens to a viewer\<close>

text \<open>
  The events that reach a viewer once it is built: a window resize and a click on the
  canvas (delivered only while the handler is registered), a click on an entry of the
  hierarchy widget (which calls \<^verbatim>\<open>highlightObject\<close>), the browser running a queued
  animation-frame callback, and \<^verbatim>\<open>dispose\<close>.
\<close>

datatype event =
    WindowResize nat nat bool
  | CanvasClick "nat list"
  | WidgetClick nat
  | AnimationFrame bool
  | Dispose

fun fire :: "event \<Rightarrow> viewer \<times> objects \<Rightarrow> viewer \<times> objects" where
  "fire (WindowResize w h upd) (v, objs) =
     (if (''resize'', ResizeHandler) \<in> window_listeners v then (resize w h upd v, objs)
      else (v, objs))"
| "fire (CanvasClick intersects) (v, objs) =
     (if (''click'', MouseClickHandler) \<in> canvas_listeners v then onMouseClick intersects (v, objs)
      else (v, objs))"
| "fire (WidgetClick object) (v, objs) = highlightObject object (v, objs)"
| "fire (AnimationFrame upd) (v, objs) =
     (if animationFrames v = 0 then (v, objs)
      else (render upd (v\<lparr>animationFrames := animationFrames v - 1\<rparr>), objs))"
| "fire Dispose (v, objs) = (dispose v, objs)"

fun run :: "event list \<Rightarrow> viewer \<times> objects \<Rightarrow> viewer \<times> objects" where
  "run [] s = s"
| "run (e # es) s = run es (fire e s)"

text \<open>
  The objects as the loader leaves them: nothing cached in \<^verbatim>\<open>userData.originalMaterial\<close>,
  no highlight material in use yet, and every mesh with a material (the type of
  \<^verbatim>\<open>Mesh.material\<close> has no \<^verbatim>\<open>undefined\<close>).
\<close>

definition asLoaded :: "objects \<Rightarrow> bool" where
  "asLoaded h \<longleftrightarrow>
     (\<forall>x. userData_originalMaterial h x = None) \<and>
     (\<forall>x. \<not> highlighted h x) \<and>
     (\<forall>x. isMeshOf h x \<longrightarrow> material h x \<noteq> None)"

text \<open>
  The shape of every state the viewer can reach from objects \<open>h0\<close> as loaded: a
  selected mesh holds a highlight material and has its own material of \<open>h0\<close> cached;
  every other object holds its material of \<open>h0\<close> and has nothing cached.
\<close>

definition selection_inv :: "objects \<Rightarrow> viewer \<times> objects \<Rightarrow> bool" where
  "selection_inv h0 s \<longleftrightarrow>
     (case s of (v, h) \<Rightarrow>
        isMeshOf h = isMeshOf h0 \<and>
        (\<forall>x. if selectedObject v = Some x \<and> isMeshOf h0 x
             then highlighted h x \<and> userData_originalMaterial h x = material h0 x
             else material h x = material h0 x \<and> userData_originalMaterial h x = None))"

text \<open>What is left of a viewer's hold on the page once everything has been released.\<close>

definition released :: "viewer \<Rightarrow> bool" where
  "released v \<longleftrightarrow>
     window_listeners v = {} \<and> canvas_listeners v = {} \<and> \<not> canvas_in_container v \<and>
     renderer_disposed v \<and> cameraControl_disposed v \<and> scene_children v = []"

section \<open>Properties of the loaded tree\<close>

lemma addTextLabel_children:
  "addTextLabel g (Object3D i m pv cs) =
     Object3D i m pv (cs @ children (addTextLabel g (Object3D i m pv [])))"
  by (simp split: option.splits)

lemma addTextLabel_new_sprites:
  "x \<in> set (children (addTextLabel g (Object3D i m pv []))) \<Longrightarrow> \<exists>l. x = LabelSprite l"
  by (auto split: option.splits if_splits)

text \<open>
  What the traversal does at one node: the children are labelled in turn, and a mesh
  gets behind them whatever \<^verbatim>\<open>addTextLabel\<close> adds to it.
\<close>

lemma addLabelsToModel_node:
  "addLabelsToModel g (Object3D i m pv cs) =
     Object3D i m pv (map (addLabelsToModel g) cs @
        (if m then children (addTextLabel g (Object3D i m pv [])) else []))"
proof -
  have fixed: "map (addLabelsToModel g) (children (addTextLabel g (Object3D i m pv []))) =
                 children (addTextLabel g (Object3D i m pv []))"
    by (rule map_idI) (metis addTextLabel_new_sprites addLabelsToModel.simps(2))
  show ?thesis
  proof (cases m)
    case True
    have "addLabelsToModel g (Object3D i m pv cs) =
            (case addTextLabel g (Object3D i m pv cs) of
               Object3D i' m' pv' cs' \<Rightarrow> Object3D i' m' pv' (map (addLabelsToModel g) cs')
             | LabelSprite l \<Rightarrow> LabelSprite l)"
      using True by (simp del: addTextLabel.simps)
    also have "\<dots> = Object3D i m pv (map (addLabelsToModel g)
                       (cs @ children (addTextLabel g (Object3D i m pv []))))"
      by (subst addTextLabel_children) simp
    finally show ?thesis using True fixed by simp
  next
    case False
    then show ?thesis by simp
  qed
qed

lemma statusIndex_cases:
  "statusIndex i = 1 \<or> statusIndex i = 2 \<or> statusIndex i = 3 \<or> statusIndex i = 4"
proof -
  have "i mod 4 = 0 \<or> i mod 4 = 1 \<or> i mod 4 = 2 \<or> i mod 4 = 3" by arith
  then show ?thesis by (auto simp: statusIndex_def)
qed

lemma progressStatuses_statusIndex:
  "progressStatuses (statusIndex i) = Some (statusName i) \<and> statusName i \<noteq> []"
  using statusIndex_cases [of i] by (auto simp: statusName_def progressStatuses_def)

lemma statusName_cases:
  "statusName i \<in> {''Not Started'', ''In Progress'', ''Partially Installed'', ''Installed''}"
  using statusIndex_cases [of i] by (auto simp: statusName_def progressStatuses_def)

lemma assigned_label:
  "children (addTextLabel g (Object3D i True (Some (meshPropertyValue i)) [])) =
     (if g i then [LabelSprite (makeLabel (statusIndex i) (statusName i))] else [])"
  using progressStatuses_statusIndex [of i] statusIndex_cases [of i]
  by (auto simp: meshPropertyValue_def)

lemma loaded_mesh_propertyValue:
  assumes "n \<in> set (nodes (addLabelsToModel g (assignPropertyValues t)))"
    and "n = Object3D i True pv cs"
  shows "pv = Some (meshPropertyValue i)"
  using assms
proof (induction t arbitrary: n)
  case (Object3D j m q ds)
  then show ?case
    apply (simp add: addLabelsToModel_node del: addLabelsToModel.simps addTextLabel.simps)
    apply (auto dest: addTextLabel_new_sprites simp del: addLabelsToModel.simps addTextLabel.simps)
    done
next
  case (LabelSprite l)
  then show ?case by simp
qed

lemma loaded_mesh_last_child:
  assumes "n \<in> set (nodes (addLabelsToModel g (assignPropertyValues t)))"
    and "n = Object3D i True pv cs" and "g i"
  shows "cs \<noteq> [] \<and> last cs = LabelSprite (makeLabel (statusIndex i) (statusName i))"
  using assms
proof (induction t arbitrary: n)
  case (Object3D j m q ds)
  then show ?case
    apply (simp add: addLabelsToModel_node del: addLabelsToModel.simps addTextLabel.simps)
    apply (auto dest: addTextLabel_new_sprites simp: assigned_label
                simp del: addLabelsToModel.simps addTextLabel.simps)
    done
next
  case (LabelSprite l)
  then show ?case by simp
qed

lemma spriteCount_loaded:
  "spriteCount (addLabelsToModel g (assignPropertyValues t)) = spriteCount t + contextCount g t"
proof (induction t)
  case (Object3D j m q ds)
  have "sum_list (map (spriteCount \<circ> (addLabelsToModel g \<circ> assignPropertyValues)) ds) =
        sum_list (map spriteCount ds) + sum_list (map (contextCount g) ds)"
    using Object3D.IH by (induction ds) auto
  then show ?case
    by (simp add: addLabelsToModel_node assigned_label
             del: addLabelsToModel.simps addTextLabel.simps)
next
  case (LabelSprite l)
  then show ?case by simp
qed

lemma contextCount_all:
  assumes "\<And>i. g i"
  shows "contextCount g t = meshCount t"
proof (induction t)
  case (Object3D j m q ds)
  have same: "map (contextCount g) ds = map meshCount ds"
    using Object3D.IH by simp
  have "sum_list (map (contextCount g) ds) = sum_list (map meshCount ds)"
    by (simp only: same)
  moreover have "g j" by (rule assms)
  ultimately show ?case by simp
next
  case (LabelSprite l)
  then show ?case by simp
qed

text \<open>
  C4. Every mesh node of the tree that \<^verbatim>\<open>loadModel\<close> returns carries the property value
  \<open>meshPropertyValue i\<close>, a function of the mesh's id \<open>i\<close> and of nothing else (not of the
  tree, of what the slot held before, or of the browser): its status code is
  \<open>i mod 4 + 1\<close>, one of 1, 2, 3, 4, and its status text is the entry of
  \<^verbatim>\<open>progressStatuses\<close> under that code, one of the four names.
\<close>

theorem mesh_status_from_identity:
  assumes "n \<in> set (nodes (addLabelsToModel getContext (assignPropertyValues t)))"
    and "n = Object3D i True pv cs"
  shows "pv = Some (meshPropertyValue i) \<and>
         statusCode (meshPropertyValue i) = i mod 4 + 1 \<and>
         statusCode (meshPropertyValue i) \<in> {1, 2, 3, 4} \<and>
         statusText (meshPropertyValue i) = progressStatuses (i mod 4 + 1) \<and>
         statusText (meshPropertyValue i) \<in>
           {Some ''Not Started'', Some ''In Progress'', Some ''Partially Installed'',
            Some ''Installed''}"
proof -
  have pv: "pv = Some (meshPropertyValue i)"
    using assms by (rule loaded_mesh_propertyValue)
  have code: "statusCode (meshPropertyValue i) = i mod 4 + 1"
    by (simp add: meshPropertyValue_def statusIndex_def)
  have range: "statusCode (meshPropertyValue i) \<in> {1, 2, 3, 4}"
    using statusIndex_cases [of i] by (auto simp: meshPropertyValue_def)
  have name_eq: "statusText (meshPropertyValue i) = progressStatuses (i mod 4 + 1)"
    by (simp add: meshPropertyValue_def statusIndex_def)
  have names: "statusText (meshPropertyValue i) \<in>
           {Some ''Not Started'', Some ''In Progress'', Some ''Partially Installed'',
            Some ''Installed''}"
    using progressStatuses_statusIndex [of i] statusName_cases [of i]
    by (auto simp: meshPropertyValue_def)
  from pv code range name_eq names show ?thesis by blast
qed

theorem mesh_status_from_identity_witness:
  "Object3D 7 True (Some \<lparr>statusCode = 4, statusText = Some ''Installed''\<rparr>)
       [LabelSprite (makeLabel 4 ''Installed'')]
     \<in> set (nodes (addLabelsToModel contextAvailable
          (assignPropertyValues (Object3D 5 False None [Object3D 6 True None [], Object3D 7 True None []])))) \<and>
   Some \<lparr>statusCode = 4, statusText = Some ''Installed''\<rparr> = Some (meshPropertyValue 7) \<and>
   statusCode (meshPropertyValue 7) = 7 mod 4 + 1 \<and>
   statusCode (meshPropertyValue 7) \<in> {1, 2, 3, 4}"
proof -
  have mem: "Object3D 7 True (Some \<lparr>statusCode = 4, statusText = Some ''Installed''\<rparr>)
       [LabelSprite (makeLabel 4 ''Installed'')]
     \<in> set (nodes (addLabelsToModel contextAvailable
          (assignPropertyValues (Object3D 5 False None [Object3D 6 True None [], Object3D 7 True None []]))))"
    by (simp add: meshPropertyValue_def statusIndex_def progressStatuses_def contextAvailable_def)
  from mesh_status_from_identity [OF mem refl] mem show ?thesis by blast
qed

text \<open>
  C5, as stated, fails: label creation gives up silently on a canvas without a 2D
  context. With one mesh and a browser that hands out no context, no sprite is made.
\<close>

theorem labels_without_context_counterexample:
  "meshCount (Object3D 1 True None []) = 1 \<and>
   spriteCount (addLabelsToModel contextUnavailable (assignPropertyValues (Object3D 1 True None [])))
     = spriteCount (Object3D 1 True None [])"
  by (simp add: contextUnavailable_def meshPropertyValue_def statusIndex_def progressStatuses_def)

lemma loaded_tree_shape:
  "addLabelsToModel g (assignPropertyValues t) = labelledTree g t"
proof (induction t)
  case (Object3D j m q ds)
  have kids: "map (addLabelsToModel g \<circ> assignPropertyValues) ds = map (labelledTree g) ds"
    using Object3D.IH by simp
  show ?case
  proof (cases m)
    case True
    then show ?thesis
      using kids
      by (simp add: addLabelsToModel_node assigned_label
               del: addLabelsToModel.simps addTextLabel.simps)
  next
    case False
    then show ?thesis
      using kids
      by (simp add: addLabelsToModel_node del: addLabelsToModel.simps addTextLabel.simps)
  qed
next
  case (LabelSprite l)
  then show ?case by simp
qed

text \<open>
  C5, amended. Label creation makes of the loaded tree exactly \<open>labelledTree\<close>: each mesh
  whose canvas gets a 2D context gains one sprite, behind its children, with its own
  status text and status colour; a mesh whose canvas gets no context gains none, and
  neither does any node that is not a mesh. Hence the tree gains one sprite per mesh
  with a context; every mesh with a context has that sprite as its last child; and
  when every canvas gets a context, a tree with N meshes gains exactly N sprites.
\<close>

theorem labels_one_per_mesh_with_context:
  "addLabelsToModel getContext (assignPropertyValues t) = labelledTree getContext t \<and>
   spriteCount (addLabelsToModel getContext (assignPropertyValues t)) =
     spriteCount t + contextCount getContext t \<and>
   (\<forall>n \<in> set (nodes (addLabelsToModel getContext (assignPropertyValues t))).
      \<forall>i pv cs. n = Object3D i True pv cs \<and> getContext i \<longrightarrow>
        cs \<noteq> [] \<and> last cs = LabelSprite (makeLabel (statusIndex i) (statusName i))) \<and>
   ((\<forall>i. getContext i) \<longrightarrow>
      spriteCount (addLabelsToModel getContext (assignPropertyValues t)) =
        spriteCount t + meshCount t)"
proof -
  have shape: "addLabelsToModel getContext (assignPropertyValues t) = labelledTree getContext t"
    by (rule loaded_tree_shape)
  have count: "spriteCount (addLabelsToModel getContext (assignPropertyValues t)) =
     spriteCount t + contextCount getContext t"
    by (rule spriteCount_loaded)
  have full: "spriteCount (addLabelsToModel getContext (assignPropertyValues t)) =
        spriteCount t + meshCount t" if "\<forall>i. getContext i"
    using count contextCount_all [of getContext t] that by simp
  have behind: "cs \<noteq> [] \<and> last cs = LabelSprite (makeLabel (statusIndex i) (statusName i))"
    if "n \<in> set (nodes (addLabelsToModel getContext (assignPropertyValues t)))"
      and "n = Object3D i True pv cs \<and> getContext i" for n i pv cs
    using loaded_mesh_last_child [OF that(1), of i pv cs] that(2) by simp
  from shape count full behind show ?thesis by blast
qed

theorem labels_one_per_mesh_with_context_witness:
  "(\<forall>i. contextAvailable i) \<and>
   meshCount (Object3D 5 False None [Object3D 6 True None [], Object3D 7 True None []]) = 2 \<and>
   spriteCount (Object3D 5 False None [Object3D 6 True None [], Object3D 7 True None []]) = 0 \<and>
   spriteCount (addLabelsToModel contextAvailable
      (assignPropertyValues (Object3D 5 False None [Object3D 6 True None [], Object3D 7 True None []]))) = 2 \<and>
   addLabelsToModel contextAvailable
      (assignPropertyValues (Object3D 5 False None [Object3D 6 True None [], Object3D 7 True None []])) =
     Object3D 5 False None
       [Object3D 6 True (Some (meshPropertyValue 6)) [LabelSprite (makeLabel 3 ''Partially Installed'')],
        Object3D 7 True (Some (meshPropertyValue 7)) [LabelSprite (makeLabel 4 ''Installed'')]] \<and>
   last [LabelSprite (makeLabel 4 ''Installed'')] = LabelSprite (makeLabel (statusIndex 7) (statusName 7))"
proof -
  let ?t = "Object3D 5 False None [Object3D 6 True None [], Object3D 7 True None []]"
  have ctx: "\<forall>i. contextAvailable i" by (simp add: contextAvailable_def)
  have counts: "meshCount ?t = 2" "spriteCount ?t = 0"
    by simp_all
  have spec_tree: "labelledTree contextAvailable ?t =
     Object3D 5 False None
       [Object3D 6 True (Some (meshPropertyValue 6)) [LabelSprite (makeLabel 3 ''Partially Installed'')],
        Object3D 7 True (Some (meshPropertyValue 7)) [LabelSprite (makeLabel 4 ''Installed'')]]"
    by (simp add: contextAvailable_def statusIndex_def statusName_def progressStatuses_def)
  note t = labels_one_per_mesh_with_context [of contextAvailable ?t]
  from t have shape: "addLabelsToModel contextAvailable (assignPropertyValues ?t) =
      labelledTree contextAvailable ?t"
    by (rule conjunct1)
  have mem: "Object3D 7 True (Some (meshPropertyValue 7)) [LabelSprite (makeLabel 4 ''Installed'')]
     \<in> set (nodes (addLabelsToModel contextAvailable (assignPropertyValues ?t)))"
    by (simp only: shape spec_tree) simp
  from t ctx have total: "spriteCount (addLabelsToModel contextAvailable (assignPropertyValues ?t)) =
      spriteCount ?t + meshCount ?t"
    by blast
  from t ctx mem have lastc: "last [LabelSprite (makeLabel 4 ''Installed'')] =
      LabelSprite (makeLabel (statusIndex 7) (statusName 7))"
    by blast
  from ctx counts total lastc shape spec_tree show ?thesis by simp
qed

section \<open>Properties of selection and highlighting\<close>

lemma inv_resetSelected:
  assumes "asLoaded h0" and "selection_inv h0 (v, h)"
  shows "isMeshOf (resetSelected v h) = isMeshOf h0 \<and>
         material (resetSelected v h) = material h0 \<and>
         userData_originalMaterial (resetSelected v h) = (\<lambda>x. None) \<and>
         materialsCreated (resetSelected v h) = materialsCreated h"
proof -
  have m: "isMeshOf h = isMeshOf h0"
    using assms(2) by (simp add: selection_inv_def)
  show ?thesis
  proof (cases "selectedObject v")
    case None
    then show ?thesis using assms(2) by (auto simp: selection_inv_def resetSelected_def)
  next
    case (Some p)
    have others: "material h x = material h0 x \<and> userData_originalMaterial h x = None"
      if "x \<noteq> p" for x
      using assms(2) Some that by (auto simp: selection_inv_def split: if_splits)
    show ?thesis
    proof (cases "isMeshOf h0 p")
      case True
      then have defined: "material h0 p \<noteq> None"
        using assms(1) by (simp add: asLoaded_def)
      have cached: "userData_originalMaterial h p = material h0 p"
        using assms(2) Some True by (auto simp: selection_inv_def)
      show ?thesis
        using Some True defined cached others m
        by (auto simp: resetSelected_def resetObjectMaterial_def fun_eq_iff)
    next
      case False
      have "material h p = material h0 p \<and> userData_originalMaterial h p = None"
        using assms(2) Some False by (auto simp: selection_inv_def split: if_splits)
      then have "material h x = material h0 x \<and> userData_originalMaterial h x = None" for x
        using others by (cases "x = p") auto
      then show ?thesis
        using Some False m by (auto simp: resetSelected_def resetObjectMaterial_def fun_eq_iff)
    qed
  qed
qed

lemma inv_applyHighlight:
  assumes "isMeshOf h1 = isMeshOf h0" and "material h1 = material h0"
    and "userData_originalMaterial h1 = (\<lambda>x. None)"
  shows "selection_inv h0 (v\<lparr>selectedObject := Some x\<rparr>, applyHighlight x h1)"
  using assms by (auto simp: selection_inv_def applyHighlight_def highlighted_def)

lemma inv_highlightObject:
  assumes "asLoaded h0" and "selection_inv h0 s"
  shows "selection_inv h0 (highlightObject x s)"
proof -
  obtain v h where s: "s = (v, h)" by (cases s)
  show ?thesis
    using inv_resetSelected [OF assms(1) assms(2) [unfolded s]]
    by (simp add: s highlightObject_def inv_applyHighlight)
qed

lemma inv_onMouseClick:
  assumes "asLoaded h0" and "selection_inv h0 s"
  shows "selection_inv h0 (onMouseClick xs s)"
proof -
  obtain v h where s: "s = (v, h)" by (cases s)
  note r = inv_resetSelected [OF assms(1) assms(2) [unfolded s]]
  show ?thesis
  proof (cases xs)
    case Nil
    show ?thesis
    proof (cases "selectedObject v")
      case None
      then show ?thesis using assms(2) by (simp add: s Nil onMouseClick_def)
    next
      case (Some p)
      then have "resetObjectMaterial p h = resetSelected v h"
        by (simp add: resetSelected_def)
      then show ?thesis using r Some
        by (simp add: s Nil onMouseClick_def selection_inv_def)
    qed
  next
    case (Cons hit rest)
    have "resetSelected (v\<lparr>selectedObject := Some hit\<rparr>) (resetSelected v h) = resetSelected v h"
      using r by (simp add: resetSelected_def resetObjectMaterial_def)
    then show ?thesis using r
      by (simp add: s Cons onMouseClick_def highlightObject_def inv_applyHighlight)
  qed
qed

lemma inv_fire:
  assumes "asLoaded h0" and "selection_inv h0 s"
  shows "selection_inv h0 (fire e s)"
proof -
  obtain v h where s: "s = (v, h)" by (cases s)
  have frame: "selectedObject v' = selectedObject v \<Longrightarrow> selection_inv h0 (v', h)" for v'
    using assms(2) by (simp add: s selection_inv_def)
  show ?thesis
  proof (cases e)
    case (WindowResize w ht upd)
    then show ?thesis using assms(2) frame
      by (simp add: s resize_def updateViewer_def render_def Let_def)
  next
    case (CanvasClick xs)
    then show ?thesis using inv_onMouseClick [OF assms, of xs] assms(2) by (simp add: s)
  next
    case (WidgetClick x)
    then show ?thesis using inv_highlightObject [OF assms, of x] by (simp add: s)
  next
    case (AnimationFrame upd)
    then show ?thesis using assms(2) frame by (simp add: s render_def Let_def)
  next
    case Dispose
    then show ?thesis using frame by (simp add: s dispose_def)
  qed
qed

lemma inv_run:
  assumes "asLoaded h0"
  shows "selection_inv h0 s \<Longrightarrow> selection_inv h0 (run es s)"
  by (induction es arbitrary: s) (simp_all add: inv_fire [OF assms])

lemma inv_initial: "asLoaded h0 \<Longrightarrow> selectedObject v0 = None \<Longrightarrow> selection_inv h0 (v0, h0)"
  by (simp add: selection_inv_def asLoaded_def)

lemma inv_highlighted:
  assumes "asLoaded h0" and "selection_inv h0 (v, h)"
  shows "highlighted h a \<longleftrightarrow> selectedObject v = Some a \<and> isMeshOf h0 a"
proof -
  have "\<not> highlighted h0 a" using assms(1) by (simp add: asLoaded_def)
  then show ?thesis
    using assms(2) by (auto simp: selection_inv_def highlighted_def split: if_splits)
qed

lemma inv_facts:
  assumes "asLoaded h0" and "selection_inv h0 (v, h)"
  shows "(\<forall>a b. highlighted h a \<and> highlighted h b \<longrightarrow> a = b) \<and>
         (\<forall>a. highlighted h a \<longrightarrow>
            selectedObject v = Some a \<and>
            userData_originalMaterial h a = material h0 a \<and>
            material (resetSelected v h) a = material h0 a \<and>
            (\<forall>b. b \<noteq> a \<longrightarrow>
               material (snd (highlightObject b (v, h))) a = material h0 a \<and>
               \<not> highlighted (snd (highlightObject b (v, h))) a)) \<and>
         (\<forall>a. \<not> highlighted h a \<longrightarrow> material h a = material h0 a)"
proof -
  note hl = inv_highlighted [OF assms]
  have one: "a = b" if "highlighted h a" and "highlighted h b" for a b
    using that hl by simp
  have cached: "userData_originalMaterial h a = material h0 a" if "highlighted h a" for a
    using that hl [of a] assms(2) by (auto simp: selection_inv_def)
  have restored: "material (resetSelected v h) a = material h0 a" for a
    using inv_resetSelected [OF assms] by simp
  have after: "material (snd (highlightObject b (v, h))) a = material h0 a \<and>
               \<not> highlighted (snd (highlightObject b (v, h))) a" if "b \<noteq> a" for a b
  proof -
    have "selection_inv h0 (highlightObject b (v, h))"
      using assms by (rule inv_highlightObject)
    then show ?thesis
      using that inv_highlighted [OF assms(1), of "fst (highlightObject b (v, h))"
          "snd (highlightObject b (v, h))" a]
      by (auto simp: selection_inv_def highlightObject_def split: if_splits)
  qed
  have rest: "material h a = material h0 a" if "\<not> highlighted h a" for a
    using that hl [of a] assms(2) by (auto simp: selection_inv_def split: if_splits)
  from one cached restored after rest hl show ?thesis by blast
qed

text \<open>
  C1. Start from objects as loaded and nothing selected, and let any sequence of
  events happen (clicks on the canvas, clicks in the hierarchy widget, and the others).
  Then at most one object holds a highlight material. That object is the selection, and
  the material object it had when loaded is the one cached for it. The first step of
  \<^verbatim>\<open>highlightObject\<close> (before the new highlight is applied) puts that very object back,
  and after \<^verbatim>\<open>highlightObject(B)\<close> for another object B it is still in place and A is no
  longer highlighted. Every object that is not highlighted holds the material object it
  was loaded with.
\<close>

theorem single_highlight_restores_original:
  assumes "asLoaded h0" and "selectedObject v0 = None"
  shows "(\<forall>a b. highlighted (snd (run es (v0, h0))) a \<and>
                highlighted (snd (run es (v0, h0))) b \<longrightarrow> a = b) \<and>
         (\<forall>a. highlighted (snd (run es (v0, h0))) a \<longrightarrow>
            selectedObject (fst (run es (v0, h0))) = Some a \<and>
            userData_originalMaterial (snd (run es (v0, h0))) a = material h0 a \<and>
            material (resetSelected (fst (run es (v0, h0))) (snd (run es (v0, h0)))) a =
              material h0 a \<and>
            (\<forall>b. b \<noteq> a \<longrightarrow>
               material (snd (highlightObject b (run es (v0, h0)))) a = material h0 a \<and>
               \<not> highlighted (snd (highlightObject b (run es (v0, h0)))) a)) \<and>
         (\<forall>a. \<not> highlighted (snd (run es (v0, h0))) a \<longrightarrow>
            material (snd (run es (v0, h0))) a = material h0 a)"
proof -
  obtain v h where r: "run es (v0, h0) = (v, h)" by (cases "run es (v0, h0)")
  have "selection_inv h0 (run es (v0, h0))"
    using assms by (intro inv_run inv_initial)
  then have "selection_inv h0 (v, h)" by (simp add: r)
  from inv_facts [OF assms(1) this] show ?thesis by (simp add: r)
qed

theorem single_highlight_restores_original_witness:
  "asLoaded \<lparr>isMeshOf = (\<lambda>x. x < 3), material = (\<lambda>x. Some (LoaderMaterial x)),
             userData_originalMaterial = (\<lambda>x. None), materialsCreated = 0\<rparr> \<and>
   selectedObject (constructor 800 600 False) = None \<and>
   highlighted (snd (run [WidgetClick 1, CanvasClick [2, 1]] (constructor 800 600 False,
      \<lparr>isMeshOf = (\<lambda>x. x < 3), material = (\<lambda>x. Some (LoaderMaterial x)),
       userData_originalMaterial = (\<lambda>x. None), materialsCreated = 0\<rparr>))) 2 \<and>
   \<not> highlighted (snd (run [WidgetClick 1, CanvasClick [2, 1]] (constructor 800 600 False,
      \<lparr>isMeshOf = (\<lambda>x. x < 3), material = (\<lambda>x. Some (LoaderMaterial x)),
       userData_originalMaterial = (\<lambda>x. None), materialsCreated = 0\<rparr>))) 1 \<and>
   material (snd (run [WidgetClick 1, CanvasClick [2, 1]] (constructor 800 600 False,
      \<lparr>isMeshOf = (\<lambda>x. x < 3), material = (\<lambda>x. Some (LoaderMaterial x)),
       userData_originalMaterial = (\<lambda>x. None), materialsCreated = 0\<rparr>))) 1 =
     Some (LoaderMaterial 1) \<and>
   material (snd (highlightObject 0 (run [WidgetClick 1, CanvasClick [2, 1]]
      (constructor 800 600 False,
       \<lparr>isMeshOf = (\<lambda>x. x < 3), material = (\<lambda>x. Some (LoaderMaterial x)),
        userData_originalMaterial = (\<lambda>x. None), materialsCreated = 0\<rparr>)))) 2 =
     Some (LoaderMaterial 2)"
proof -
  let ?h0 = "\<lparr>isMeshOf = (\<lambda>x. x < 3), material = (\<lambda>x. Some (LoaderMaterial x)),
             userData_originalMaterial = (\<lambda>x. None), materialsCreated = 0 :: nat\<rparr>"
  let ?v0 = "constructor 800 600 False"
  let ?es = "[WidgetClick 1, CanvasClick [2, 1]]"
  have loaded: "asLoaded ?h0"
    by (simp add: asLoaded_def highlighted_def)
  have fresh: "selectedObject ?v0 = None"
    by (simp add: constructor_def updateViewer_def render_def loadModel_start_def Let_def)
  have two: "highlighted (snd (run ?es (?v0, ?h0))) 2"
    by (simp add: constructor_def updateViewer_def render_def loadModel_start_def Let_def
        highlightObject_def onMouseClick_def resetSelected_def resetObjectMaterial_def
        applyHighlight_def highlighted_def)
  have one: "\<not> highlighted (snd (run ?es (?v0, ?h0))) 1"
    by (simp add: constructor_def updateViewer_def render_def loadModel_start_def Let_def
        highlightObject_def onMouseClick_def resetSelected_def resetObjectMaterial_def
        applyHighlight_def highlighted_def)
  note t = single_highlight_restores_original [OF loaded fresh, of ?es]
  from t one have m1: "material (snd (run ?es (?v0, ?h0))) 1 = material ?h0 1"
    by blast
  have "(0::nat) \<noteq> 2" by simp
  with t two have m2: "material (snd (highlightObject 0 (run ?es (?v0, ?h0)))) 2 = material ?h0 2"
    by blast
  from loaded fresh two one m1 m2 show ?thesis by simp
qed

text \<open>
  C9. For an object that is not a mesh, \<^verbatim>\<open>highlightObject\<close> does the restoring step on
  the previous selection, records the object as the selection, and nothing else: no
  material is created, the object's own material is as before, and so is the material
  of every object other than the previous selection. A previously selected mesh with
  a cached material gets that material back and loses the cache entry.
\<close>

theorem highlight_non_mesh_changes_no_material:
  assumes "\<not> isMeshOf h obj"
  shows "highlightObject obj (v, h) = (v\<lparr>selectedObject := Some obj\<rparr>, resetSelected v h) \<and>
         selectedObject (fst (highlightObject obj (v, h))) = Some obj \<and>
         material (snd (highlightObject obj (v, h))) obj = material h obj \<and>
         materialsCreated (snd (highlightObject obj (v, h))) = materialsCreated h \<and>
         (\<forall>x. selectedObject v \<noteq> Some x \<longrightarrow>
            material (snd (highlightObject obj (v, h))) x = material h x \<and>
            userData_originalMaterial (snd (highlightObject obj (v, h))) x =
              userData_originalMaterial h x) \<and>
         (\<forall>p m. selectedObject v = Some p \<and> isMeshOf h p \<and>
                userData_originalMaterial h p = Some m \<longrightarrow>
            material (snd (highlightObject obj (v, h))) p = Some m \<and>
            userData_originalMaterial (snd (highlightObject obj (v, h))) p = None)"
proof -
  have kind: "isMeshOf (resetSelected v h) = isMeshOf h"
    by (simp add: resetSelected_def resetObjectMaterial_def split: option.splits)
  then have eq: "highlightObject obj (v, h) = (v\<lparr>selectedObject := Some obj\<rparr>, resetSelected v h)"
    using assms by (simp add: highlightObject_def applyHighlight_def)
  have own: "material (resetSelected v h) obj = material h obj"
    using assms by (simp add: resetSelected_def resetObjectMaterial_def split: option.splits)
  have made: "materialsCreated (resetSelected v h) = materialsCreated h"
    by (simp add: resetSelected_def resetObjectMaterial_def split: option.splits)
  have others: "material (resetSelected v h) x = material h x \<and>
                userData_originalMaterial (resetSelected v h) x = userData_originalMaterial h x"
    if "selectedObject v \<noteq> Some x" for x
    using that by (auto simp: resetSelected_def resetObjectMaterial_def split: option.splits)
  have regained: "material (resetSelected v h) p = Some m \<and>
              userData_originalMaterial (resetSelected v h) p = None"
    if "selectedObject v = Some p \<and> isMeshOf h p \<and> userData_originalMaterial h p = Some m"
    for p m
    using that by (simp add: resetSelected_def resetObjectMaterial_def)
  from eq own made others regained show ?thesis by simp
qed

theorem highlight_non_mesh_changes_no_material_witness:
  "\<not> isMeshOf
       \<lparr>isMeshOf = (\<lambda>x. x < 3),
        material = (\<lambda>x. Some (LoaderMaterial x))(1 := Some (HighlightMaterial 0)),
        userData_originalMaterial = (\<lambda>x. None)(1 := Some (LoaderMaterial 1)),
        materialsCreated = 1\<rparr> 5 \<and>
   material (snd (highlightObject 5 (constructor 800 600 False\<lparr>selectedObject := Some 1\<rparr>,
       \<lparr>isMeshOf = (\<lambda>x. x < 3),
        material = (\<lambda>x. Some (LoaderMaterial x))(1 := Some (HighlightMaterial 0)),
        userData_originalMaterial = (\<lambda>x. None)(1 := Some (LoaderMaterial 1)),
        materialsCreated = 1\<rparr>))) 1 = Some (LoaderMaterial 1) \<and>
   material (snd (highlightObject 5 (constructor 800 600 False\<lparr>selectedObject := Some 1\<rparr>,
       \<lparr>isMeshOf = (\<lambda>x. x < 3),
        material = (\<lambda>x. Some (LoaderMaterial x))(1 := Some (HighlightMaterial 0)),
        userData_originalMaterial = (\<lambda>x. None)(1 := Some (LoaderMaterial 1)),
        materialsCreated = 1\<rparr>))) 5 = Some (LoaderMaterial 5) \<and>
   selectedObject (fst (highlightObject 5 (constructor 800 600 False\<lparr>selectedObject := Some 1\<rparr>,
       \<lparr>isMeshOf = (\<lambda>x. x < 3),
        material = (\<lambda>x. Some (LoaderMaterial x))(1 := Some (HighlightMaterial 0)),
        userData_originalMaterial = (\<lambda>x. None)(1 := Some (LoaderMaterial 1)),
        materialsCreated = 1\<rparr>))) = Some 5"
proof -
  let ?h = "\<lparr>isMeshOf = (\<lambda>x. x < 3),
        material = (\<lambda>x. Some (LoaderMaterial x))(1 := Some (HighlightMaterial 0)),
        userData_originalMaterial = (\<lambda>x. None)(1 := Some (LoaderMaterial 1)),
        materialsCreated = 1 :: nat\<rparr>"
  let ?v = "constructor 800 600 False\<lparr>selectedObject := Some 1\<rparr>"
  have group: "\<not> isMeshOf ?h 5" by simp
  have prev: "selectedObject ?v = Some 1 \<and> isMeshOf ?h 1 \<and>
              userData_originalMaterial ?h 1 = Some (LoaderMaterial 1)"
    by simp
  note t = highlight_non_mesh_changes_no_material [OF group, of ?v]
  from t prev have regained: "material (snd (highlightObject 5 (?v, ?h))) 1 = Some (LoaderMaterial 1)"
    by blast
  from t have own: "material (snd (highlightObject 5 (?v, ?h))) 5 = material ?h 5"
    by blast
  from t have sel: "selectedObject (fst (highlightObject 5 (?v, ?h))) = Some 5"
    by blast
  from group regained own sel show ?thesis by simp
qed

text \<open>
  C10. \<^verbatim>\<open>resetObjectMaterial\<close> returns for every object and every state; a second call
  right after the first changes nothing; and on an object that is not a mesh, or a
  mesh with nothing cached, even the first call changes nothing.
\<close>

theorem resetObjectMaterial_idempotent_total:
  "resetObjectMaterial x (resetObjectMaterial x h) = resetObjectMaterial x h \<and>
   (\<not> isMeshOf h x \<or> userData_originalMaterial h x = None \<longrightarrow> resetObjectMaterial x h = h)"
  by (auto simp: resetObjectMaterial_def)

theorem resetObjectMaterial_idempotent_total_witness:
  "userData_originalMaterial
       \<lparr>isMeshOf = (\<lambda>x. x < 3),
        material = (\<lambda>x. Some (LoaderMaterial x))(1 := Some (HighlightMaterial 0)),
        userData_originalMaterial = (\<lambda>x. None)(1 := Some (LoaderMaterial 1)),
        materialsCreated = 1\<rparr> 2 = None \<and>
   resetObjectMaterial 2
       \<lparr>isMeshOf = (\<lambda>x. x < 3),
        material = (\<lambda>x. Some (LoaderMaterial x))(1 := Some (HighlightMaterial 0)),
        userData_originalMaterial = (\<lambda>x. None)(1 := Some (LoaderMaterial 1)),
        materialsCreated = 1\<rparr> =
       \<lparr>isMeshOf = (\<lambda>x. x < 3),
        material = (\<lambda>x. Some (LoaderMaterial x))(1 := Some (HighlightMaterial 0)),
        userData_originalMaterial = (\<lambda>x. None)(1 := Some (LoaderMaterial 1)),
        materialsCreated = 1\<rparr> \<and>
   resetObjectMaterial 1 (resetObjectMaterial 1
       \<lparr>isMeshOf = (\<lambda>x. x < 3),
        material = (\<lambda>x. Some (LoaderMaterial x))(1 := Some (HighlightMaterial 0)),
        userData_originalMaterial = (\<lambda>x. None)(1 := Some (LoaderMaterial 1)),
        materialsCreated = 1\<rparr>) =
       \<lparr>isMeshOf = (\<lambda>x. x < 3),
        material = (\<lambda>x. Some (LoaderMaterial x)),
        userData_originalMaterial = (\<lambda>x. None),
        materialsCreated = 1\<rparr>"
proof -
  let ?h = "\<lparr>isMeshOf = (\<lambda>x. x < 3),
        material = (\<lambda>x. Some (LoaderMaterial x))(1 := Some (HighlightMaterial 0)),
        userData_originalMaterial = (\<lambda>x. None)(1 := Some (LoaderMaterial 1)),
        materialsCreated = 1 :: nat\<rparr>"
  have uncached: "userData_originalMaterial ?h 2 = None" by simp
  then have either: "\<not> isMeshOf ?h 2 \<or> userData_originalMaterial ?h 2 = None" by (rule disjI2)
  have unchanged: "resetObjectMaterial 2 ?h = ?h"
    by (rule resetObjectMaterial_idempotent_total [of 2 ?h, THEN conjunct2, THEN mp, OF either])
  have once: "resetObjectMaterial 1 ?h =
       \<lparr>isMeshOf = (\<lambda>x. x < 3),
        material = (\<lambda>x. Some (LoaderMaterial x)),
        userData_originalMaterial = (\<lambda>x. None),
        materialsCreated = 1\<rparr>"
    by (simp add: resetObjectMaterial_def fun_eq_iff)
  have twice: "resetObjectMaterial 1 (resetObjectMaterial 1 ?h) = resetObjectMaterial 1 ?h"
    by (rule resetObjectMaterial_idempotent_total [of 1 ?h, THEN conjunct1])
  from uncached unchanged twice once show ?thesis by simp
qed

section \<open>Properties of loading, resizing and disposal\<close>

lemma render_keeps:
  "status (render upd v) = status v"
  "model (render upd v) = model v"
  "window_listeners (render upd v) = window_listeners v"
  "canvas_listeners (render upd v) = canvas_listeners v"
  by (simp_all add: render_def Let_def)

lemma fire_keeps:
  "status (fst (fire e s)) = status (fst s) \<and> model (fst (fire e s)) = model (fst s) \<and>
   window_listeners (fst (fire e s)) \<subseteq> window_listeners (fst s) \<and>
   canvas_listeners (fst (fire e s)) \<subseteq> canvas_listeners (fst s)"
proof -
  obtain v h where s: "s = (v, h)" by (cases s)
  show ?thesis
    by (cases e)
      (auto simp: s render_keeps resize_def updateViewer_def dispose_def highlightObject_def
        onMouseClick_def split: list.splits option.splits)
qed

lemma run_keeps:
  "status (fst (run es s)) = status (fst s) \<and> model (fst (run es s)) = model (fst s) \<and>
   window_listeners (fst (run es s)) \<subseteq> window_listeners (fst s) \<and>
   canvas_listeners (fst (run es s)) \<subseteq> canvas_listeners (fst s)"
proof (induction es arbitrary: s)
  case Nil
  show ?case by simp
next
  case (Cons e es)
  show ?case using Cons [of "fire e s"] fire_keeps [of e s] by auto
qed

lemma constructor_fields:
  "status (constructor w ht upd) = [Idle, Loading]"
  "model (constructor w ht upd) = None"
  "window_listeners (constructor w ht upd) = {(''resize'', ResizeHandler)}"
  "canvas_listeners (constructor w ht upd) = {(''click'', MouseClickHandler)}"
  "scene_children (constructor w ht upd) = [DirectionalLight, AmbientLight]"
  by (simp_all add: constructor_def updateViewer_def render_def loadModel_start_def Let_def)

lemma loadSettled_listeners:
  "window_listeners (loadSettled a f p g v) = window_listeners v \<and>
   canvas_listeners (loadSettled a f p g v) = canvas_listeners v"
  by (auto simp: loadSettled_def loadModel_resume_def loadModel_catch_def onModelLoaded_def
      split: sum.splits option.splits)

lemma dispose_released:
  assumes "window_listeners v \<subseteq> {(''resize'', ResizeHandler)}"
    and "canvas_listeners v \<subseteq> {(''click'', MouseClickHandler)}"
  shows "released (dispose v)"
  using assms by (auto simp: released_def dispose_def)

text \<open>
  C2 fails on the code for a missing payload. When the request succeeds and
  \<^verbatim>\<open>findThreeJSJSON\<close> finds nothing, \<^verbatim>\<open>loadModel\<close> falls out of its \<^verbatim>\<open>if\<close>: the promise is
  fulfilled with \<^verbatim>\<open>undefined\<close>, not rejected, the viewer is left exactly as it was, and
  for a viewer just built the status stays at loading, never reaching error. (No node
  is attached, as the claim says.)
\<close>

theorem missing_payload_leaves_status_loading:
  "loadModel_resume (Inr data) (\<lambda>d. Inr None) parseJSON getContext v = (Inr None, v) \<and>
   loadSettled (Inr data) (\<lambda>d. Inr None) parseJSON getContext v = v \<and>
   status (loadSettled (Inr data) (\<lambda>d. Inr None) parseJSON getContext (constructor w ht upd)) =
     [Idle, Loading] \<and>
   model (loadSettled (Inr data) (\<lambda>d. Inr None) parseJSON getContext (constructor w ht upd)) =
     None \<and>
   scene_children
     (loadSettled (Inr data) (\<lambda>d. Inr None) parseJSON getContext (constructor w ht upd)) =
     [DirectionalLight, AmbientLight]"
  by (simp add: loadSettled_def loadModel_resume_def onModelLoaded_def constructor_fields)

text \<open>
  C3. Take a viewer just built, after any events. Until the load settles its status
  history is idle, loading and it has no model. If the request succeeds, the payload is
  found and parses to a root, then after settling the model is that root (with status
  values and labels added) and the status history is idle, loading, idle. If the
  request throws, the promise is rejected with the load failure, the status history is
  idle, loading, error, and there is still no model.
\<close>

theorem load_success_and_fetch_failure:
  assumes "v = fst (run before (constructor w ht upd, objs))"
  shows "status v = [Idle, Loading] \<and> model v = None \<and>
         (axios_get = Inr data \<and> findThreeJSJSON data = Inr (Some jsonObject) \<and>
          parseJSON jsonObject = Inr root \<longrightarrow>
            model (loadSettled axios_get findThreeJSJSON parseJSON getContext v) =
              Some (addLabelsToModel getContext (assignPropertyValues root)) \<and>
            status (loadSettled axios_get findThreeJSJSON parseJSON getContext v) =
              [Idle, Loading, Idle]) \<and>
         (axios_get = Inl e \<longrightarrow>
            fst (loadModel_resume axios_get findThreeJSJSON parseJSON getContext v) =
              Inl (JsError ''Failed to load model'') \<and>
            model (loadSettled axios_get findThreeJSJSON parseJSON getContext v) = None \<and>
            status (loadSettled axios_get findThreeJSJSON parseJSON getContext v) =
              [Idle, Loading, Error])"
proof -
  have v: "status v = [Idle, Loading]" "model v = None"
    using run_keeps [of before "(constructor w ht upd, objs)"] assms
    by (simp_all add: constructor_fields)
  show ?thesis
    using v
    by (auto simp: loadSettled_def loadModel_resume_def loadModel_catch_def onModelLoaded_def)
qed

theorem load_success_and_fetch_failure_witness:
  "model (loadSettled (Inr (0::nat)) (\<lambda>d::nat. (Inr (Some d) :: unit + nat option))
           (\<lambda>j::nat. (Inr (Object3D j False None [Object3D 6 True None []]) :: unit + object3d))
           contextAvailable
           (fst (run [WindowResize 640 480 False]
              (constructor 800 600 False,
               \<lparr>isMeshOf = (\<lambda>x. x < 3), material = (\<lambda>x. Some (LoaderMaterial x)),
                userData_originalMaterial = (\<lambda>x. None), materialsCreated = 0\<rparr>)))) =
     Some (Object3D 0 False None
            [Object3D 6 True (Some \<lparr>statusCode = 3, statusText = Some ''Partially Installed''\<rparr>)
               [LabelSprite (makeLabel 3 ''Partially Installed'')]]) \<and>
   status (loadSettled (Inr (0::nat)) (\<lambda>d::nat. (Inr (Some d) :: unit + nat option))
           (\<lambda>j::nat. (Inr (Object3D j False None [Object3D 6 True None []]) :: unit + object3d))
           contextAvailable
           (fst (run [WindowResize 640 480 False]
              (constructor 800 600 False,
               \<lparr>isMeshOf = (\<lambda>x. x < 3), material = (\<lambda>x. Some (LoaderMaterial x)),
                userData_originalMaterial = (\<lambda>x. None), materialsCreated = 0\<rparr>)))) =
     [Idle, Loading, Idle] \<and>
   status (loadSettled (Inl () :: unit + nat) (\<lambda>d::nat. (Inr (Some d) :: unit + nat option))
           (\<lambda>j::nat. (Inr (Object3D j False None [Object3D 6 True None []]) :: unit + object3d))
           contextAvailable
           (fst (run [WindowResize 640 480 False]
              (constructor 800 600 False,
               \<lparr>isMeshOf = (\<lambda>x. x < 3), material = (\<lambda>x. Some (LoaderMaterial x)),
                userData_originalMaterial = (\<lambda>x. None), materialsCreated = 0\<rparr>)))) =
     [Idle, Loading, Error]"
proof -
  let ?find = "\<lambda>d::nat. (Inr (Some d) :: unit + nat option)"
  let ?parse = "\<lambda>j::nat. (Inr (Object3D j False None [Object3D 6 True None []]) :: unit + object3d)"
  let ?objs = "\<lparr>isMeshOf = (\<lambda>x. x < 3), material = (\<lambda>x. Some (LoaderMaterial x)),
                userData_originalMaterial = (\<lambda>x. None), materialsCreated = 0 :: nat\<rparr>"
  let ?v = "fst (run [WindowResize 640 480 False] (constructor 800 600 False, ?objs))"
  have ok: "(Inr 0 :: unit + nat) = Inr 0 \<and> ?find 0 = Inr (Some 0) \<and>
            ?parse 0 = Inr (Object3D 0 False None [Object3D 6 True None []])"
    by simp
  have ko: "(Inl () :: unit + nat) = Inl ()" by simp
  have labelled: "addLabelsToModel contextAvailable
          (assignPropertyValues (Object3D 0 False None [Object3D 6 True None []])) =
        Object3D 0 False None
            [Object3D 6 True (Some \<lparr>statusCode = 3, statusText = Some ''Partially Installed''\<rparr>)
               [LabelSprite (makeLabel 3 ''Partially Installed'')]]"
    by (simp add: meshPropertyValue_def statusIndex_def progressStatuses_def contextAvailable_def)
  note good = load_success_and_fetch_failure
    [OF refl, of "[WindowResize 640 480 False]" 800 600 False ?objs "Inr 0" 0 ?find 0 ?parse
       "Object3D 0 False None [Object3D 6 True None []]" contextAvailable]
  note bad = load_success_and_fetch_failure
    [OF refl, of "[WindowResize 640 480 False]" 800 600 False ?objs "Inl ()" 0 ?find 0 ?parse
       "Object3D 0 False None [Object3D 6 True None []]" contextAvailable "()"]
  from good ok have
    "model (loadSettled (Inr 0) ?find ?parse contextAvailable ?v) =
       Some (addLabelsToModel contextAvailable
          (assignPropertyValues (Object3D 0 False None [Object3D 6 True None []])))"
    "status (loadSettled (Inr 0) ?find ?parse contextAvailable ?v) = [Idle, Loading, Idle]"
    by blast+
  moreover from bad ko have
    "status (loadSettled (Inl ()) ?find ?parse contextAvailable ?v) = [Idle, Loading, Error]"
    by blast
  ultimately show ?thesis by (simp only: labelled)
qed

text \<open>
  C6. For every resize to a window of \<open>w\<close> by \<open>ht\<close>, the handler sets the camera aspect
  to the quotient of the two, recomputes the projection from it, resizes the render
  surface to the new dimensions and sets the dirty flag, and then hands over to
  \<^verbatim>\<open>updateViewer\<close>. Because the flag is set, the scene is redrawn with the new projection
  and size whether or not the camera controls report a change and whatever the flag
  was before; the draw consumes the flag. The redraw is in place by the time the next
  animation frame has run, whatever that frame does.
\<close>

theorem resize_updates_camera_and_redraws:
  "resize w ht upd v =
     updateViewer upd
       (v\<lparr>camera_aspect := Ratio w ht, projection_aspect := Ratio w ht,
          renderer_size := (w, ht), renderNeeded := True\<rparr>) \<and>
   camera_aspect (resize w ht upd v) = Ratio w ht \<and>
   projection_aspect (resize w ht upd v) = Ratio w ht \<and>
   renderer_size (resize w ht upd v) = (w, ht) \<and>
   rendered (resize w ht upd v) = rendered v @ [(Ratio w ht, w, ht)] \<and>
   \<not> renderNeeded (resize w ht upd v) \<and>
   (Ratio w ht, w, ht) \<in> set (rendered (render upd' (resize w ht upd v))) \<and>
   camera_aspect (render upd' (resize w ht upd v)) = Ratio w ht \<and>
   renderer_size (render upd' (resize w ht upd v)) = (w, ht)"
  by (simp add: resize_def updateViewer_def render_def Let_def)

text \<open>
  C7. Whatever happened to a viewer since it was built, before the load settled or
  after, \<^verbatim>\<open>dispose\<close> leaves no listener of the viewer on the window or on the canvas, the
  canvas out of the page, the renderer and the camera controller disposed and the
  scene empty; and a resize or a click after that no longer reaches the viewer.
\<close>

theorem dispose_releases_everything:
  "released (dispose (fst (run before (constructor w ht upd, objs)))) \<and>
   released (dispose (fst (run after
      (loadSettled axios_get findThreeJSJSON parseJSON getContext
         (fst (run before (constructor w ht upd, objs))), objs')))) \<and>
   fire (WindowResize w' ht' upd')
      (dispose (fst (run before (constructor w ht upd, objs))), objs'') =
      (dispose (fst (run before (constructor w ht upd, objs))), objs'') \<and>
   fire (CanvasClick intersects)
      (dispose (fst (run before (constructor w ht upd, objs))), objs'') =
      (dispose (fst (run before (constructor w ht upd, objs))), objs'')"
proof -
  let ?v1 = "fst (run before (constructor w ht upd, objs))"
  let ?v2 = "fst (run after
      (loadSettled axios_get findThreeJSJSON parseJSON getContext ?v1, objs'))"
  have l1: "window_listeners ?v1 \<subseteq> {(''resize'', ResizeHandler)}"
           "canvas_listeners ?v1 \<subseteq> {(''click'', MouseClickHandler)}"
    using run_keeps [of before "(constructor w ht upd, objs)"]
    by (simp_all add: constructor_fields)
  have l2: "window_listeners ?v2 \<subseteq> {(''resize'', ResizeHandler)}"
           "canvas_listeners ?v2 \<subseteq> {(''click'', MouseClickHandler)}"
    using run_keeps [of after
        "(loadSettled axios_get findThreeJSJSON parseJSON getContext ?v1, objs')"]
      loadSettled_listeners [of axios_get findThreeJSJSON parseJSON getContext ?v1] l1
    by auto
  have r1: "released (dispose ?v1)" using l1 by (rule dispose_released)
  have r2: "released (dispose ?v2)" using l2 by (rule dispose_released)
  have quiet: "fire (WindowResize w' ht' upd') (dispose ?v1, objs'') = (dispose ?v1, objs'')"
       "fire (CanvasClick intersects) (dispose ?v1, objs'') = (dispose ?v1, objs'')"
    using r1 by (simp_all add: released_def)
  from r1 r2 quiet show ?thesis by simp
qed

text \<open>
  C8. The status of a viewer starts at idle, and the constructor has moved it to
  loading by the time it returns: a subscriber sees idle, then loading.
\<close>

theorem constructor_emits_idle_then_loading:
  "status (constructor w ht upd) = [Idle, Loading] \<and>
   hd (status (constructor w ht upd)) = Idle \<and>
   last (status (constructor w ht upd)) = Loading \<and>
   status (loadModel_start v) = status v @ [Loading]"
  by (simp add: constructor_def updateViewer_def render_def loadModel_start_def Let_def)

end
